theory Spec2Isabelle
  imports Complex_Main
begin

section \<open>Data model (types.ts)\<close>

text \<open>
  The simulator is written in TypeScript; a \<^verbatim>\<open>number\<close> is modelled as a \<^typ>\<open>real\<close>,
  \<^verbatim>\<open>Math.cos\<close>, \<^verbatim>\<open>Math.sin\<close> and \<^verbatim>\<open>Math.PI\<close> as \<^const>\<open>cos\<close>, \<^const>\<open>sin\<close>
  and \<^const>\<open>pi\<close>. Rounding of IEEE doubles is outside the model. Interfaces are records
  with the field names of the source; the \<^verbatim>\<open>id\<close> fields are called \<open>config_id\<close> and
  \<open>entity_id\<close> because \<^const>\<open>id\<close> is the identity function of HOL.
\<close>

datatype StartPosition = Bottom | Top

record EnvironmentConfig =
  angleIncline :: real
  gravity :: real
  scaleVelocity :: real
  scaleDisplacement :: real
  timeScale :: real
  showPrediction :: bool

text \<open>
  A JavaScript string is a sequence of UTF-16 code units. The display name contains
  non-ASCII characters and is kept as its list of code units; ids and colours are ASCII.
\<close>

type_synonym utf16 = "nat list"

record ProjectileConfig =
  config_id :: string
  name :: utf16
  color :: string
  v0 :: real
  angleLaunch :: real
  startPos :: StartPosition

record Vector2 =
  x :: real
  y :: real

text \<open>
  \<^verbatim>\<open>calculatePhysics\<close> returns an object with the fields \<open>position\<close> and \<open>velocity\<close>;
  \<^verbatim>\<open>SimulationState\<close> has the same two fields and five more. The state is therefore the
  extension of the smaller record, so that both share the field names of the source.
\<close>

record Kinematics =
  position :: Vector2
  velocity :: Vector2

record SimulationState = Kinematics +
  t :: real
  isPlaying :: bool
  isFinished :: bool
  startPosition :: Vector2
  path :: "Vector2 list"

record ProjectileEntity =
  entity_id :: string
  config :: ProjectileConfig
  state :: SimulationState

record InitialState =
  pos :: Vector2
  vel :: Vector2

text \<open>The components returned by \<^verbatim>\<open>projectToIncline\<close>: a vector with its signed magnitude.\<close>

record VectorMag = Vector2 +
  mag :: real

record Projection =
  parallel :: VectorMag
  perpendicular :: VectorMag

section \<open>Physics (utils/physics)\<close>

definition INCLINE_LENGTH :: real where
  "INCLINE_LENGTH = 100"

definition toRad :: "real \<Rightarrow> real" where
  "toRad deg = (deg * pi) / 180"

definition toDeg :: "real \<Rightarrow> real" where
  "toDeg rad = (rad * 180) / pi"

definition getInitialState :: "ProjectileConfig \<Rightarrow> EnvironmentConfig \<Rightarrow> InitialState" where
  "getInitialState pConfig envConfig =
     (let theta = toRad (angleIncline envConfig);
          phi = toRad (angleLaunch pConfig);
          totalAngle = theta + phi;
          startX = (if startPos pConfig = Top then INCLINE_LENGTH * cos theta else 0);
          startY = (if startPos pConfig = Top then INCLINE_LENGTH * sin theta else 0)
      in \<lparr> pos = \<lparr> x = startX, y = startY \<rparr>,
           vel = \<lparr> x = v0 pConfig * cos totalAngle, y = v0 pConfig * sin totalAngle \<rparr> \<rparr>)"

definition calculatePhysics ::
  "real \<Rightarrow> EnvironmentConfig \<Rightarrow> Vector2 \<Rightarrow> Vector2 \<Rightarrow> Kinematics" where
  "calculatePhysics tm e initialPos initialVel =
     (let px = x initialPos + x initialVel * tm;
          py = y initialPos + y initialVel * tm - 0.5 * gravity e * tm * tm;
          vx = x initialVel;
          vy = y initialVel - gravity e * tm
      in \<lparr> position = \<lparr> x = px, y = py \<rparr>, velocity = \<lparr> x = vx, y = vy \<rparr> \<rparr>)"

definition perpDist :: "Vector2 \<Rightarrow> real \<Rightarrow> real" where
  "perpDist p inclineAngleDeg =
     - x p * sin (toRad inclineAngleDeg) + y p * cos (toRad inclineAngleDeg)"

definition paraDist :: "Vector2 \<Rightarrow> real \<Rightarrow> real" where
  "paraDist p inclineAngleDeg =
     x p * cos (toRad inclineAngleDeg) + y p * sin (toRad inclineAngleDeg)"

definition checkCollision :: "Vector2 \<Rightarrow> real \<Rightarrow> bool" where
  "checkCollision p inclineAngleDeg =
     (let isBelow = perpDist p inclineAngleDeg \<le> 0.05;
          isOnRamp = (paraDist p inclineAngleDeg \<ge> -5
                      \<and> paraDist p inclineAngleDeg \<le> INCLINE_LENGTH + 20)
      in isBelow \<and> isOnRamp)"

definition projectToIncline :: "Vector2 \<Rightarrow> real \<Rightarrow> Projection" where
  "projectToIncline vec inclineAngleDeg =
     (let theta = toRad inclineAngleDeg;
          uPara = \<lparr> x = cos theta, y = sin theta \<rparr>;
          uPerp = \<lparr> x = - sin theta, y = cos theta \<rparr>;
          vParaMag = x vec * x uPara + y vec * y uPara;
          vPerpMag = x vec * x uPerp + y vec * y uPerp
      in \<lparr> parallel = \<lparr> x = x uPara * vParaMag, y = y uPara * vParaMag, mag = vParaMag \<rparr>,
           perpendicular = \<lparr> x = x uPerp * vPerpMag, y = y uPerp * vPerpMag, mag = vPerpMag \<rparr> \<rparr>)"

text \<open>
  \<^verbatim>\<open>predictTrajectory\<close>: the \<^verbatim>\<open>for\<close> loop runs while \<open>tm \<le> maxTime\<close> and adds \<open>dt\<close> to
  \<open>tm\<close> after each round; both \<^verbatim>\<open>break\<close> statements leave it with the point already pushed.
\<close>

definition predict_dt :: real where
  "predict_dt = 0.1"

definition predict_maxTime :: real where
  "predict_maxTime = 10"

function predictLoop ::
  "EnvironmentConfig \<Rightarrow> Vector2 \<Rightarrow> Vector2 \<Rightarrow> real \<Rightarrow> Vector2 list \<Rightarrow> Vector2 list" where
  "predictLoop e p0 vl tm points =
     (if tm \<le> predict_maxTime then
        (if checkCollision (position (calculatePhysics tm e p0 vl)) (angleIncline e) \<and> tm > 0.1
         then points @ [position (calculatePhysics tm e p0 vl)]
         else if y (position (calculatePhysics tm e p0 vl)) < -10
         then points @ [position (calculatePhysics tm e p0 vl)]
         else predictLoop e p0 vl (tm + predict_dt)
                (points @ [position (calculatePhysics tm e p0 vl)]))
      else points)"
  by pat_completeness auto
termination
proof (relation "measure (\<lambda>(e, p0, vl, tm, points). nat \<lfloor>(predict_maxTime - tm) * 10 + 1\<rfloor>)")
  show "wf (measure (\<lambda>(e, p0, vl, tm, points). nat \<lfloor>(predict_maxTime - tm) * 10 + 1\<rfloor>))"
    by simp
next
  fix e :: EnvironmentConfig and p0 vl :: Vector2 and tm :: real and points :: "Vector2 list"
  assume le: "tm \<le> predict_maxTime"
  have "(predict_maxTime - (tm + predict_dt)) * 10 + 1 = ((predict_maxTime - tm) * 10 + 1) - 1"
    by (simp add: predict_dt_def algebra_simps)
  then have "\<lfloor>(predict_maxTime - (tm + predict_dt)) * 10 + 1\<rfloor>
             = \<lfloor>(predict_maxTime - tm) * 10 + 1\<rfloor> - 1"
    by simp
  moreover from le have "1 \<le> \<lfloor>(predict_maxTime - tm) * 10 + 1\<rfloor>"
    by simp
  ultimately show
    "((e, p0, vl, tm + predict_dt, points @ [position (calculatePhysics tm e p0 vl)]),
      (e, p0, vl, tm, points))
     \<in> measure (\<lambda>(e, p0, vl, tm, points). nat \<lfloor>(predict_maxTime - tm) * 10 + 1\<rfloor>)"
    by simp
qed

declare predictLoop.simps [simp del]

definition predictTrajectory :: "ProjectileConfig \<Rightarrow> EnvironmentConfig \<Rightarrow> Vector2 list" where
  "predictTrajectory pConfig e =
     (let init = getInitialState pConfig e
      in predictLoop e (pos init) (vel init) 0 [])"

section \<open>The application state and its operations (App.tsx)\<close>

text \<open>
  \<^verbatim>\<open>Math.round\<close> rounds to the nearest integer, a tie towards plus infinity; \<^verbatim>\<open>%\<close> is the
  remainder that takes the sign of the dividend.
\<close>

definition js_round :: "real \<Rightarrow> int" where
  "js_round r = \<lfloor>r + 1 / 2\<rfloor>"

definition js_rem :: "int \<Rightarrow> int \<Rightarrow> int" where
  "js_rem a b = sgn a * (\<bar>a\<bar> mod \<bar>b\<bar>)"

text \<open>One projectile's part of \<^verbatim>\<open>animate\<close>: the function mapped over the list.\<close>

definition animateProjectile :: "EnvironmentConfig \<Rightarrow> ProjectileEntity \<Rightarrow> ProjectileEntity" where
  "animateProjectile e p =
     (if \<not> isPlaying (state p) \<or> isFinished (state p) then p
      else
        let dt = (1 / 60) * timeScale e;
            nextT = t (state p) + dt;
            init = getInitialState (config p) e;
            physics = calculatePhysics nextT e (startPosition (state p)) (vel init);
            hasHit = checkCollision (position physics) (angleIncline e)
        in if hasHit \<and> nextT > 0.1 then
             p\<lparr> state := (state p)\<lparr> t := nextT,
                                      position := position physics,
                                      velocity := \<lparr> x = 0, y = 0 \<rparr>,
                                      isPlaying := False,
                                      isFinished := True \<rparr> \<rparr>
           else if y (position physics) < -30 \<or> x (position physics) > 250 then
             p\<lparr> state := (state p)\<lparr> isPlaying := False, isFinished := True \<rparr> \<rparr>
           else
             let shouldAddPoint = (js_rem (js_round (nextT * 60)) 5 = 0);
                 newPath = (if shouldAddPoint then path (state p) @ [position physics]
                            else path (state p))
             in p\<lparr> state := (state p)\<lparr> t := nextT,
                                         position := position physics,
                                         velocity := velocity physics,
                                         path := newPath \<rparr> \<rparr>)"

text \<open>
  \<^verbatim>\<open>Partial<ProjectileConfig>\<close>: every field may be absent. \<open>mergeConfig\<close> is the object
  spread \<^verbatim>\<open>{ ...c, ...updates }\<close>.
\<close>

record PartialConfig =
  upd_id :: "string option"
  upd_name :: "utf16 option"
  upd_color :: "string option"
  upd_v0 :: "real option"
  upd_angleLaunch :: "real option"
  upd_startPos :: "StartPosition option"

definition noUpdates :: PartialConfig where
  "noUpdates = \<lparr> upd_id = None, upd_name = None, upd_color = None, upd_v0 = None,
                  upd_angleLaunch = None, upd_startPos = None \<rparr>"

definition mergeConfig :: "ProjectileConfig \<Rightarrow> PartialConfig \<Rightarrow> ProjectileConfig" where
  "mergeConfig c u =
     \<lparr> config_id = (case upd_id u of None \<Rightarrow> config_id c | Some v \<Rightarrow> v),
       name = (case upd_name u of None \<Rightarrow> name c | Some v \<Rightarrow> v),
       color = (case upd_color u of None \<Rightarrow> color c | Some v \<Rightarrow> v),
       v0 = (case upd_v0 u of None \<Rightarrow> v0 c | Some v \<Rightarrow> v),
       angleLaunch = (case upd_angleLaunch u of None \<Rightarrow> angleLaunch c | Some v \<Rightarrow> v),
       startPos = (case upd_startPos u of None \<Rightarrow> startPos c | Some v \<Rightarrow> v) \<rparr>"

definition createProjectile ::
  "EnvironmentConfig \<Rightarrow> string \<Rightarrow> utf16 \<Rightarrow> string \<Rightarrow> PartialConfig \<Rightarrow> ProjectileEntity" where
  "createProjectile e i n c partialConfig =
     (let cfg = mergeConfig \<lparr> config_id = i, name = n, color = c, v0 = 25, angleLaunch = 45,
                              startPos = Bottom \<rparr> partialConfig;
          init = getInitialState cfg e
      in \<lparr> entity_id = i,
           config = cfg,
           state = \<lparr> position = pos init,
                     velocity = vel init,
                     t = 0,
                     isPlaying = False,
                     isFinished = False,
                     startPosition = pos init,
                     path = [pos init] \<rparr> \<rparr>)"

text \<open>The React state of the component: the environment and the list of projectiles,
  with the active id and the id counter that the list operations read.\<close>

record App =
  env :: EnvironmentConfig
  activeId :: string
  projectIdCounter :: nat
  projectiles :: "ProjectileEntity list"

definition COLORS :: "string list" where
  "COLORS = [''#ef4444'', ''#3b82f6'', ''#10b981'', ''#f59e0b'', ''#8b5cf6'', ''#ec4899'']"

text \<open>The decimal digits of a number, as the template literal \<^verbatim>\<open>`p${n}`\<close> prints them.\<close>

fun decimal :: "nat \<Rightarrow> string" where
  "decimal n =
     (if n < 10 then [char_of (48 + n)]
      else decimal (n div 10) @ [char_of (48 + n mod 10)])"

declare decimal.simps [simp del]

definition fromCharCode :: "nat \<Rightarrow> utf16" where
  "fromCharCode n = [n mod 65536]"

text \<open>The code units of the name prefix: U+7269, U+4F53 and a space.\<close>

definition namePrefix :: utf16 where
  "namePrefix = [0x7269, 0x4F53, 0x20]"

definition addProjectile :: "App \<Rightarrow> App" where
  "addProjectile s =
     (let nextId = ''p'' @ decimal (projectIdCounter s + 1);
          c = COLORS ! (length (projectiles s) mod length COLORS);
          newP = createProjectile (env s) nextId
                   (namePrefix @ fromCharCode (65 + length (projectiles s))) c noUpdates
      in s\<lparr> projectIdCounter := projectIdCounter s + 1,
             projectiles := projectiles s @ [newP],
             activeId := nextId \<rparr>)"

definition removeProjectile :: "App \<Rightarrow> string \<Rightarrow> App" where
  "removeProjectile s i =
     (if length (projectiles s) \<le> 1 then s
      else s\<lparr> projectiles := filter (\<lambda>p. entity_id p \<noteq> i) (projectiles s),
               activeId := (if activeId s = i then entity_id (projectiles s ! 0)
                            else activeId s) \<rparr>)"

definition updateProjectileConfig :: "App \<Rightarrow> string \<Rightarrow> PartialConfig \<Rightarrow> App" where
  "updateProjectileConfig s i updates =
     s\<lparr> projectiles := map (\<lambda>p.
          if entity_id p \<noteq> i then p
          else
            let newConfig = mergeConfig (config p) updates;
                init = getInitialState newConfig (env s)
            in p\<lparr> config := newConfig,
                   state := (state p)\<lparr> t := 0,
                                        isPlaying := False,
                                        isFinished := False,
                                        position := pos init,
                                        startPosition := pos init,
                                        velocity := vel init,
                                        path := [pos init] \<rparr> \<rparr>) (projectiles s) \<rparr>"

text \<open>
  The effect with the dependencies \<^verbatim>\<open>[env.angleIncline, env.gravity]\<close>: it runs after the
  first render and after every render in which one of the two has changed.
\<close>

definition envEffect :: "EnvironmentConfig \<Rightarrow> ProjectileEntity \<Rightarrow> ProjectileEntity" where
  "envEffect e p =
     (if isPlaying (state p) then p
      else
        let init = getInitialState (config p) e
        in p\<lparr> state := (state p)\<lparr> position := pos init,
                                    startPosition := pos init,
                                    velocity := vel init,
                                    path := [pos init] \<rparr> \<rparr>)"

definition setEnv :: "App \<Rightarrow> EnvironmentConfig \<Rightarrow> App" where
  "setEnv s e =
     (if angleIncline e \<noteq> angleIncline (env s) \<or> gravity e \<noteq> gravity (env s)
      then s\<lparr> env := e, projectiles := map (envEffect e) (projectiles s) \<rparr>
      else s\<lparr> env := e \<rparr>)"

text \<open>The arrow function that \<^verbatim>\<open>launchProjectile\<close> maps over the list.\<close>

definition launchOne :: "EnvironmentConfig \<Rightarrow> string \<Rightarrow> ProjectileEntity \<Rightarrow> ProjectileEntity" where
  "launchOne e i p =
     (if entity_id p \<noteq> i then p
      else if isPlaying (state p) then
        p\<lparr> state := (state p)\<lparr> isPlaying := False \<rparr> \<rparr>
      else if isFinished (state p) then
        let init = getInitialState (config p) e
        in p\<lparr> state := \<lparr> position = pos init,
                          velocity = vel init,
                          t = 0,
                          isPlaying = True,
                          isFinished = False,
                          startPosition = pos init,
                          path = [pos init] \<rparr> \<rparr>
      else p\<lparr> state := (state p)\<lparr> isPlaying := True \<rparr> \<rparr>)"

definition launchProjectile :: "App \<Rightarrow> string \<Rightarrow> App" where
  "launchProjectile s i = s\<lparr> projectiles := map (launchOne (env s) i) (projectiles s) \<rparr>"

definition launchAll :: "App \<Rightarrow> App" where
  "launchAll s =
     s\<lparr> projectiles := map (\<lambda>p.
          let init = getInitialState (config p) (env s)
          in p\<lparr> state := \<lparr> position = pos init,
                            velocity = vel init,
                            t = 0,
                            isPlaying = True,
                            isFinished = False,
                            startPosition = pos init,
                            path = [pos init] \<rparr> \<rparr>) (projectiles s) \<rparr>"

definition resetAll :: "App \<Rightarrow> App" where
  "resetAll s =
     s\<lparr> projectiles := map (\<lambda>p.
          let init = getInitialState (config p) (env s)
          in p\<lparr> state := \<lparr> position = pos init,
                            velocity = vel init,
                            t = 0,
                            isPlaying = False,
                            isFinished = False,
                            startPosition = pos init,
                            path = [pos init] \<rparr> \<rparr>) (projectiles s) \<rparr>"

definition animate :: "App \<Rightarrow> App" where
  "animate s = s\<lparr> projectiles := map (animateProjectile (env s)) (projectiles s) \<rparr>"

text \<open>The first render: the initial hooks, then the environment effect once.\<close>

definition initialEnv :: EnvironmentConfig where
  "initialEnv = \<lparr> angleIncline = 30, gravity = 9.81, scaleVelocity = 0.5,
                   scaleDisplacement = 1.0, timeScale = 1.0, showPrediction = True \<rparr>"

definition initialApp :: App where
  "initialApp =
     \<lparr> env = initialEnv,
       activeId = ''p1'',
       projectIdCounter = 1,
       projectiles = map (envEffect initialEnv)
         [createProjectile initialEnv ''p1'' (namePrefix @ [0x41]) (COLORS ! 0) noUpdates] \<rparr>"

text \<open>Every way the component changes its state, and a run of such events.\<close>

datatype Action =
    AddProjectile
  | RemoveProjectile string
  | UpdateProjectileConfig string PartialConfig
  | SetEnv EnvironmentConfig
  | LaunchProjectile string
  | LaunchAll
  | ResetAll
  | Animate

fun step :: "App \<Rightarrow> Action \<Rightarrow> App" where
  "step s AddProjectile = addProjectile s"
| "step s (RemoveProjectile i) = removeProjectile s i"
| "step s (UpdateProjectileConfig i u) = updateProjectileConfig s i u"
| "step s (SetEnv e) = setEnv s e"
| "step s (LaunchProjectile i) = launchProjectile s i"
| "step s LaunchAll = launchAll s"
| "step s ResetAll = resetAll s"
| "step s Animate = animate s"

fun run :: "App \<Rightarrow> Action list \<Rightarrow> App" where
  "run s [] = s"
| "run s (a # as) = run (step s a) as"

text \<open>The legal combinations of the two flight flags.\<close>

definition legalFlags :: "SimulationState \<Rightarrow> bool" where
  "legalFlags st =
     ((isPlaying st, isFinished st) \<in> {(False, False), (True, False), (False, True)})"

section \<open>Concrete inputs\<close>

text \<open>A horizontal incline, where the trigonometry is rational, with the default gravity.\<close>

definition flatEnv :: EnvironmentConfig where
  "flatEnv = \<lparr> angleIncline = 0, gravity = 9.81, scaleVelocity = 0.5,
                scaleDisplacement = 1.0, timeScale = 1.0, showPrediction = True \<rparr>"

definition flatConfig :: ProjectileConfig where
  "flatConfig = \<lparr> config_id = ''p1'', name = namePrefix @ [0x41], color = ''#ef4444'',
                   v0 = 25, angleLaunch = 0, startPos = Bottom \<rparr>"

text \<open>The default projectile shot along the horizontal incline, six ticks after its launch.\<close>

definition flyingShot :: ProjectileEntity where
  "flyingShot =
     \<lparr> entity_id = ''p1'', config = flatConfig,
       state = \<lparr> position = \<lparr> x = 5 / 2, y = - 981 / 20000 \<rparr>,
                 velocity = \<lparr> x = 25, y = - 981 / 1000 \<rparr>,
                 t = 1 / 10, isPlaying = True, isFinished = False,
                 startPosition = \<lparr> x = 0, y = 0 \<rparr>,
                 path = [\<lparr> x = 0, y = 0 \<rparr>, \<lparr> x = 25 / 12, y = - 109 / 3200 \<rparr>] \<rparr> \<rparr>"

text \<open>The same projectile after the seventh tick, landed on the incline.\<close>

definition landedShot :: ProjectileEntity where
  "landedShot =
     \<lparr> entity_id = ''p1'', config = flatConfig,
       state = \<lparr> position = \<lparr> x = 35 / 12, y = - 5341 / 80000 \<rparr>,
                 velocity = \<lparr> x = 0, y = 0 \<rparr>,
                 t = 7 / 60, isPlaying = False, isFinished = True,
                 startPosition = \<lparr> x = 0, y = 0 \<rparr>,
                 path = [\<lparr> x = 0, y = 0 \<rparr>, \<lparr> x = 25 / 12, y = - 109 / 3200 \<rparr>] \<rparr> \<rparr>"

definition landedApp :: App where
  "landedApp = \<lparr> env = flatEnv, activeId = ''p1'', projectIdCounter = 1,
                  projectiles = [landedShot] \<rparr>"

text \<open>The events that lead from the first render to that landing.\<close>

definition flatScript :: "Action list" where
  "flatScript =
     [SetEnv flatEnv,
      UpdateProjectileConfig ''p1'' (noUpdates\<lparr> upd_angleLaunch := Some 0 \<rparr>),
      LaunchAll, Animate, Animate, Animate, Animate, Animate, Animate, Animate]"

text \<open>The same projectile right after its launch.\<close>

definition freshShot :: ProjectileEntity where
  "freshShot =
     \<lparr> entity_id = ''p1'', config = flatConfig,
       state = \<lparr> position = \<lparr> x = 0, y = 0 \<rparr>,
                 velocity = \<lparr> x = 25, y = 0 \<rparr>,
                 t = 0, isPlaying = True, isFinished = False,
                 startPosition = \<lparr> x = 0, y = 0 \<rparr>,
                 path = [\<lparr> x = 0, y = 0 \<rparr>] \<rparr> \<rparr>"

text \<open>A fast projectile shot from the top of the horizontal incline, about to cross the
  horizontal bound.\<close>

definition fastConfig :: ProjectileConfig where
  "fastConfig = \<lparr> config_id = ''p1'', name = namePrefix @ [0x41], color = ''#ef4444'',
                   v0 = 200, angleLaunch = 0, startPos = Top \<rparr>"

definition leavingShot :: ProjectileEntity where
  "leavingShot =
     \<lparr> entity_id = ''p1'', config = fastConfig,
       state = \<lparr> position = \<lparr> x = 250, y = - 8829 / 3200 \<rparr>,
                 velocity = \<lparr> x = 200, y = - 2943 / 400 \<rparr>,
                 t = 3 / 4, isPlaying = True, isFinished = False,
                 startPosition = \<lparr> x = 100, y = 0 \<rparr>,
                 path = [\<lparr> x = 100, y = 0 \<rparr>] \<rparr> \<rparr>"

text \<open>Every projectile of the application has legal flags.\<close>

definition allLegal :: "App \<Rightarrow> bool" where
  "allLegal s = (\<forall>p \<in> set (projectiles s). legalFlags (state p))"

text \<open>The scenario of the trajectory preview: launch speed 25 at 45 degrees to the incline
  from the bottom, on a 30 degree incline with gravity 9.81; the other fields are free.\<close>

definition scenarioConfig :: "ProjectileConfig \<Rightarrow> ProjectileConfig" where
  "scenarioConfig c = c\<lparr> v0 := 25, angleLaunch := 45, startPos := Bottom \<rparr>"

definition scenarioEnv :: "EnvironmentConfig \<Rightarrow> EnvironmentConfig" where
  "scenarioEnv e = e\<lparr> angleIncline := 30, gravity := 9.81 \<rparr>"

section \<open>Auxiliary facts\<close>

lemma toRad_0: "toRad 0 = 0"
  by (simp add: toRad_def)

lemma toRad_30: "toRad 30 = pi / 6"
  by (simp add: toRad_def)

lemma toRad_45: "toRad 45 = pi / 4"
  by (simp add: toRad_def)

lemma rotate_back:
  fixes c s a b :: real
  assumes "s * s + c * c = 1"
  shows "c * (a * c + b * s) + - s * (a * (- s) + b * c) = a"
    and "s * (a * c + b * s) + c * (a * (- s) + b * c) = b"
proof -
  have "c * (a * c + b * s) + - s * (a * (- s) + b * c) = a * (s * s + c * c)"
    by (simp add: algebra_simps)
  then show "c * (a * c + b * s) + - s * (a * (- s) + b * c) = a"
    by (simp only: assms mult_1_right)
  have "s * (a * c + b * s) + c * (a * (- s) + b * c) = b * (s * s + c * c)"
    by (simp add: algebra_simps)
  then show "s * (a * c + b * s) + c * (a * (- s) + b * c) = b"
    by (simp only: assms mult_1_right)
qed

lemma predictLoop_continue:
  assumes "tm \<le> predict_maxTime"
    and "\<not> (checkCollision (position (calculatePhysics tm e p0 vl)) (angleIncline e) \<and> tm > 0.1)"
    and "\<not> y (position (calculatePhysics tm e p0 vl)) < -10"
  shows "predictLoop e p0 vl tm points
        = predictLoop e p0 vl (tm + predict_dt) (points @ [position (calculatePhysics tm e p0 vl)])"
  by (subst predictLoop.simps) (simp only: assms if_True if_False simp_thms)

lemma predictLoop_stop:
  assumes "tm \<le> predict_maxTime"
    and "(checkCollision (position (calculatePhysics tm e p0 vl)) (angleIncline e) \<and> tm > 0.1)
         \<or> y (position (calculatePhysics tm e p0 vl)) < -10"
  shows "predictLoop e p0 vl tm points = points @ [position (calculatePhysics tm e p0 vl)]"
proof (cases "checkCollision (position (calculatePhysics tm e p0 vl)) (angleIncline e) \<and> tm > 0.1")
  case True
  show ?thesis by (subst predictLoop.simps) (simp only: assms(1) True if_True simp_thms)
next
  case False
  with assms(2) have lt: "y (position (calculatePhysics tm e p0 vl)) < -10" by blast
  show ?thesis by (subst predictLoop.simps) (simp only: assms(1) False lt if_True if_False simp_thms)
qed

lemma predictLoop_done:
  assumes "\<not> tm \<le> predict_maxTime"
  shows "predictLoop e p0 vl tm points = points"
  by (subst predictLoop.simps) (simp only: assms if_False simp_thms)

lemma predictLoop_length: "length points \<le> length (predictLoop e p0 vl tm points)"
proof (induction e p0 vl tm points rule: predictLoop.induct)
  case (1 e p0 vl tm points)
  let ?pt = "position (calculatePhysics tm e p0 vl)"
  let ?stop = "(checkCollision ?pt (angleIncline e) \<and> tm > 0.1) \<or> y ?pt < -10"
  consider (over) "\<not> tm \<le> predict_maxTime"
    | (stop) "tm \<le> predict_maxTime" "?stop"
    | (cont) "tm \<le> predict_maxTime" "\<not> (checkCollision ?pt (angleIncline e) \<and> tm > 0.1)"
        "\<not> y ?pt < -10"
    by blast
  then show ?case
  proof cases
    case over
    then show ?thesis by (simp add: predictLoop_done)
  next
    case stop
    then show ?thesis by (simp add: predictLoop_stop)
  next
    case cont
    have "length (points @ [?pt]) \<le> length (predictLoop e p0 vl (tm + predict_dt) (points @ [?pt]))"
      using cont by (intro "1.IH")
    then show ?thesis
      using cont by (simp add: predictLoop_continue)
  qed
qed

lemma predictLoop_pushes:
  assumes "tm \<le> predict_maxTime"
  shows "Suc (length points) \<le> length (predictLoop e p0 vl tm points)"
proof -
  let ?pt = "position (calculatePhysics tm e p0 vl)"
  show ?thesis
  proof (cases "(checkCollision ?pt (angleIncline e) \<and> tm > 0.1) \<or> y ?pt < -10")
    case True
    with assms show ?thesis by (simp add: predictLoop_stop)
  next
    case False
    then have "predictLoop e p0 vl tm points = predictLoop e p0 vl (tm + predict_dt) (points @ [?pt])"
      using assms by (intro predictLoop_continue) blast+
    moreover have "length (points @ [?pt])
        \<le> length (predictLoop e p0 vl (tm + predict_dt) (points @ [?pt]))"
      by (rule predictLoop_length)
    ultimately show ?thesis by simp
  qed
qed

lemma origin_dists: "perpDist \<lparr> x = 0, y = 0 \<rparr> a = 0" "paraDist \<lparr> x = 0, y = 0 \<rparr> a = 0"
  by (simp_all add: perpDist_def paraDist_def)

lemma origin_hit: "checkCollision \<lparr> x = 0, y = 0 \<rparr> a"
  by (simp add: checkCollision_def origin_dists INCLINE_LENGTH_def)

lemma bottom_start: "pos (getInitialState (c\<lparr> startPos := Bottom \<rparr>) e) = \<lparr> x = 0, y = 0 \<rparr>"
  by (simp add: getInitialState_def Let_def)

lemma predict_bottom_two: "2 \<le> length (predictTrajectory (c\<lparr> startPos := Bottom \<rparr>) e)"
proof -
  let ?vl = "vel (getInitialState (c\<lparr> startPos := Bottom \<rparr>) e)"
  let ?o = "\<lparr> x = 0, y = 0 \<rparr>"
  have p0: "position (calculatePhysics 0 e ?o ?vl) = ?o"
    by (simp add: calculatePhysics_def Let_def)
  have "predictLoop e ?o ?vl 0 [] = predictLoop e ?o ?vl (0 + predict_dt) ([] @ [?o])"
    using predictLoop_continue [of 0 e ?o ?vl "[]"] by (simp add: p0 predict_maxTime_def)
  moreover have "Suc (length ([] @ [?o])) \<le> length (predictLoop e ?o ?vl (0 + predict_dt) ([] @ [?o]))"
    by (rule predictLoop_pushes) (simp add: predict_dt_def predict_maxTime_def)
  ultimately show ?thesis
    by (simp add: predictTrajectory_def Let_def bottom_start)
qed

lemma grace_tick:
  assumes "isPlaying (state p)" "\<not> isFinished (state p)"
    and "t (state p) + (1 / 60) * timeScale e \<le> 0.1"
    and "\<not> (y (position (calculatePhysics (t (state p) + (1 / 60) * timeScale e) e
                (startPosition (state p)) (vel (getInitialState (config p) e)))) < -30
           \<or> x (position (calculatePhysics (t (state p) + (1 / 60) * timeScale e) e
                (startPosition (state p)) (vel (getInitialState (config p) e)))) > 250)"
  shows "isPlaying (state (animateProjectile e p)) \<and> \<not> isFinished (state (animateProjectile e p))"
proof -
  from assms(3) have "\<not> t (state p) + (1 / 60) * timeScale e > 0.1" by simp
  with assms(1,2,4) show ?thesis
    unfolding animateProjectile_def Let_def by (simp only: if_False if_True simp_thms) simp
qed

lemma predict_grace:
  assumes "tm \<le> 0.1"
    and "\<not> y (position (calculatePhysics tm e p0 vl)) < -10"
  shows "predictLoop e p0 vl tm points
        = predictLoop e p0 vl (tm + predict_dt) (points @ [position (calculatePhysics tm e p0 vl)])"
proof (rule predictLoop_continue)
  from assms(1) show "tm \<le> predict_maxTime"
    by (simp add: predict_maxTime_def)
  from assms(1) show "\<not> (checkCollision (position (calculatePhysics tm e p0 vl)) (angleIncline e)
                         \<and> tm > 0.1)"
    by simp
  from assms(2) show "\<not> y (position (calculatePhysics tm e p0 vl)) < -10" .
qed

lemma predict_honoured:
  assumes "0.1 < tm" "tm \<le> predict_maxTime"
    and "checkCollision (position (calculatePhysics tm e p0 vl)) (angleIncline e)"
  shows "predictLoop e p0 vl tm points = points @ [position (calculatePhysics tm e p0 vl)]"
  using assms by (intro predictLoop_stop) simp_all

lemma tick_honoured:
  assumes "isPlaying (state q)" "\<not> isFinished (state q)"
    and "0.1 < t (state q) + (1 / 60) * timeScale e"
    and "checkCollision (position (calculatePhysics (t (state q) + (1 / 60) * timeScale e) e
           (startPosition (state q)) (vel (getInitialState (config q) e)))) (angleIncline e)"
  shows "\<not> isPlaying (state (animateProjectile e q)) \<and> isFinished (state (animateProjectile e q))
         \<and> velocity (state (animateProjectile e q)) = \<lparr> x = 0, y = 0 \<rparr>"
  using assms unfolding animateProjectile_def Let_def
  by (simp only: if_False if_True simp_thms) simp

lemma predict_bottom_three:
  assumes "\<not> y (position (calculatePhysics (0 + predict_dt) e \<lparr> x = 0, y = 0 \<rparr>
                 (vel (getInitialState (c\<lparr> startPos := Bottom \<rparr>) e)))) < -10"
  shows "3 \<le> length (predictTrajectory (c\<lparr> startPos := Bottom \<rparr>) e)"
proof -
  let ?vl = "vel (getInitialState (c\<lparr> startPos := Bottom \<rparr>) e)"
  let ?o = "\<lparr> x = 0, y = 0 \<rparr>"
  let ?pt = "\<lambda>tm. position (calculatePhysics tm e ?o ?vl)"
  have p0: "?pt 0 = ?o"
    by (simp add: calculatePhysics_def Let_def)
  have "predictLoop e ?o ?vl 0 [] = predictLoop e ?o ?vl (0 + predict_dt) ([] @ [?pt 0])"
    by (rule predict_grace) (simp_all add: p0)
  also have "\<dots> = predictLoop e ?o ?vl (0 + predict_dt + predict_dt)
                     (([] @ [?pt 0]) @ [?pt (0 + predict_dt)])"
    using assms by (intro predict_grace) (simp_all add: predict_dt_def)
  finally have "predictLoop e ?o ?vl 0 []
      = predictLoop e ?o ?vl (0 + predict_dt + predict_dt) (([] @ [?pt 0]) @ [?pt (0 + predict_dt)])" .
  moreover have "Suc (length (([] @ [?pt 0]) @ [?pt (0 + predict_dt)]))
      \<le> length (predictLoop e ?o ?vl (0 + predict_dt + predict_dt)
                   (([] @ [?pt 0]) @ [?pt (0 + predict_dt)]))"
    by (rule predictLoop_pushes) (simp add: predict_dt_def predict_maxTime_def)
  ultimately show ?thesis
    by (simp add: predictTrajectory_def Let_def bottom_start)
qed

lemma predictLoop_samples:
  assumes "\<forall>k<n. \<not> (checkCollision (position (calculatePhysics (t0 + real k * predict_dt) e p0 vl))
                       (angleIncline e) \<and> t0 + real k * predict_dt > 0.1)
               \<and> \<not> y (position (calculatePhysics (t0 + real k * predict_dt) e p0 vl)) < -10"
    and "t0 + real n * predict_dt \<le> predict_maxTime"
    and "(checkCollision (position (calculatePhysics (t0 + real n * predict_dt) e p0 vl))
            (angleIncline e) \<and> t0 + real n * predict_dt > 0.1)
         \<or> y (position (calculatePhysics (t0 + real n * predict_dt) e p0 vl)) < -10"
  shows "predictLoop e p0 vl t0 points
         = points @ map (\<lambda>k. position (calculatePhysics (t0 + real k * predict_dt) e p0 vl))
                      [0..<Suc n]"
  using assms
proof (induction n arbitrary: t0 points)
  case 0
  then show ?case by (simp add: predictLoop_stop)
next
  case (Suc n)
  let ?pt = "\<lambda>tm. position (calculatePhysics tm e p0 vl)"
  have shift: "t0 + predict_dt + real k * predict_dt = t0 + real (Suc k) * predict_dt" for k
    by (simp add: algebra_simps)
  from Suc.prems(1) have now: "\<not> (checkCollision (?pt t0) (angleIncline e) \<and> t0 > 0.1)"
      "\<not> y (?pt t0) < -10"
    by (auto dest: spec [of _ 0])
  have "0 \<le> real (Suc n) * predict_dt"
    by (simp add: predict_dt_def)
  with Suc.prems(2) have le: "t0 \<le> predict_maxTime"
    by linarith
  have step: "predictLoop e p0 vl t0 points
      = predictLoop e p0 vl (t0 + predict_dt) (points @ [?pt t0])"
    using le now by (rule predictLoop_continue)
  have rest: "predictLoop e p0 vl (t0 + predict_dt) (points @ [?pt t0])
      = (points @ [?pt t0]) @ map (\<lambda>k. ?pt (t0 + predict_dt + real k * predict_dt)) [0..<Suc n]"
  proof (rule Suc.IH)
    show "\<forall>k<n. \<not> (checkCollision (?pt (t0 + predict_dt + real k * predict_dt)) (angleIncline e)
                     \<and> t0 + predict_dt + real k * predict_dt > 0.1)
               \<and> \<not> y (?pt (t0 + predict_dt + real k * predict_dt)) < -10"
      using Suc.prems(1) unfolding shift by auto
    show "t0 + predict_dt + real n * predict_dt \<le> predict_maxTime"
      using Suc.prems(2) unfolding shift .
    show "(checkCollision (?pt (t0 + predict_dt + real n * predict_dt)) (angleIncline e)
            \<and> t0 + predict_dt + real n * predict_dt > 0.1)
         \<or> y (?pt (t0 + predict_dt + real n * predict_dt)) < -10"
      using Suc.prems(3) unfolding shift .
  qed
  have "map (\<lambda>k. ?pt (t0 + real k * predict_dt)) [0..<Suc (Suc n)]
      = ?pt t0 # map (\<lambda>k. ?pt (t0 + real (Suc k) * predict_dt)) [0..<Suc n]"
    by (subst map_upt_Suc) simp
  with step rest show ?case
    unfolding shift by simp
qed

lemma sqrt2_bounds: "1.41421 < sqrt 2" "sqrt 2 < 1.41422"
proof -
  show "1.41421 < sqrt 2" by (rule real_less_rsqrt) (simp add: power2_eq_square)
  show "sqrt 2 < 1.41422" by (rule real_less_lsqrt) (simp_all add: power2_eq_square)
qed

lemma sqrt3_bounds: "1.73205 < sqrt 3" "sqrt 3 < 1.73206"
proof -
  show "1.73205 < sqrt 3" by (rule real_less_rsqrt) (simp add: power2_eq_square)
  show "sqrt 3 < 1.73206" by (rule real_less_lsqrt) (simp_all add: power2_eq_square)
qed

lemma incline_frame:
  fixes st ct sp cp v tm h :: real
  assumes "st * st + ct * ct = 1"
  shows "- (v * (ct * cp - st * sp) * tm) * st + (v * (st * cp + ct * sp) * tm - h) * ct
         = v * tm * sp - h * ct"
    and "v * (ct * cp - st * sp) * tm * ct + (v * (st * cp + ct * sp) * tm - h) * st
         = v * tm * cp - h * st"
proof -
  have "- (v * (ct * cp - st * sp) * tm) * st + (v * (st * cp + ct * sp) * tm - h) * ct
        = v * tm * sp * (st * st + ct * ct) - h * ct"
    by (simp add: algebra_simps)
  then show "- (v * (ct * cp - st * sp) * tm) * st + (v * (st * cp + ct * sp) * tm - h) * ct
         = v * tm * sp - h * ct"
    by (simp only: assms mult_1_right)
  have "v * (ct * cp - st * sp) * tm * ct + (v * (st * cp + ct * sp) * tm - h) * st
        = v * tm * cp * (st * st + ct * ct) - h * st"
    by (simp add: algebra_simps)
  then show "v * (ct * cp - st * sp) * tm * ct + (v * (st * cp + ct * sp) * tm - h) * st
         = v * tm * cp - h * st"
    by (simp only: assms mult_1_right)
qed

text \<open>The flight from the origin, seen in the frame of the incline.\<close>

lemma flight_from_origin:
  fixes c :: ProjectileConfig and e :: EnvironmentConfig and tm :: real
  defines "pt \<equiv> position (calculatePhysics tm e \<lparr> x = 0, y = 0 \<rparr> (vel (getInitialState c e)))"
  shows "perpDist pt (angleIncline e)
           = v0 c * tm * sin (toRad (angleLaunch c))
             - 0.5 * gravity e * tm * tm * cos (toRad (angleIncline e))"
    and "paraDist pt (angleIncline e)
           = v0 c * tm * cos (toRad (angleLaunch c))
             - 0.5 * gravity e * tm * tm * sin (toRad (angleIncline e))"
    and "y pt = v0 c * sin (toRad (angleIncline e) + toRad (angleLaunch c)) * tm
             - 0.5 * gravity e * tm * tm"
proof -
  let ?th = "toRad (angleIncline e)" and ?ph = "toRad (angleLaunch c)"
  have sc: "sin ?th * sin ?th + cos ?th * cos ?th = 1"
    using sin_cos_squared_add [of ?th] by (simp add: power2_eq_square)
  have X: "x pt = v0 c * (cos ?th * cos ?ph - sin ?th * sin ?ph) * tm"
    by (simp add: pt_def calculatePhysics_def getInitialState_def Let_def cos_add)
  have Y: "y pt = v0 c * (sin ?th * cos ?ph + cos ?th * sin ?ph) * tm - 0.5 * gravity e * tm * tm"
    by (simp add: pt_def calculatePhysics_def getInitialState_def Let_def sin_add)
  show "perpDist pt (angleIncline e)
           = v0 c * tm * sin ?ph - 0.5 * gravity e * tm * tm * cos ?th"
    unfolding perpDist_def X Y by (rule incline_frame(1) [OF sc])
  show "paraDist pt (angleIncline e)
           = v0 c * tm * cos ?ph - 0.5 * gravity e * tm * tm * sin ?th"
    unfolding paraDist_def X Y by (rule incline_frame(2) [OF sc])
  show "y pt = v0 c * sin (?th + ?ph) * tm - 0.5 * gravity e * tm * tm"
    by (simp add: pt_def calculatePhysics_def getInitialState_def Let_def)
qed

text \<open>The scenario: speed 25 at 45 degrees above a 30 degree incline, gravity 9.81.\<close>

lemma scenario_start:
  "pos (getInitialState (scenarioConfig c) (scenarioEnv e)) = \<lparr> x = 0, y = 0 \<rparr>"
  by (simp add: getInitialState_def scenarioConfig_def Let_def)

lemma scenario_dists:
  fixes c :: ProjectileConfig and e :: EnvironmentConfig and tm :: real
  defines "pt \<equiv> position (calculatePhysics tm (scenarioEnv e) \<lparr> x = 0, y = 0 \<rparr>
                     (vel (getInitialState (scenarioConfig c) (scenarioEnv e))))"
  shows "perpDist pt 30 = tm * (25 * (sqrt 2 / 2) - (981 / 200) * (sqrt 3 / 2) * tm)"
    and "paraDist pt 30 = tm * (25 * (sqrt 2 / 2) - (981 / 400) * tm)"
    and "y pt = tm * (25 * ((sqrt 2 / 2) * (1 / 2 + sqrt 3 / 2)) - (981 / 200) * tm)"
proof -
  have a: "angleIncline (scenarioEnv e) = 30" "gravity (scenarioEnv e) = 981 / 100"
    "v0 (scenarioConfig c) = 25" "angleLaunch (scenarioConfig c) = 45"
    by (simp_all add: scenarioEnv_def scenarioConfig_def)
  have s75: "sin (pi / 6 + pi / 4) = (sqrt 2 / 2) * (1 / 2 + sqrt 3 / 2)"
    unfolding sin_add sin_30 cos_30 sin_45 cos_45 by (simp add: algebra_simps)
  from flight_from_origin(1) [of tm "scenarioEnv e" "scenarioConfig c"]
  show "perpDist pt 30 = tm * (25 * (sqrt 2 / 2) - (981 / 200) * (sqrt 3 / 2) * tm)"
    unfolding pt_def a toRad_30 toRad_45 sin_45 cos_30 by (simp add: algebra_simps)
  from flight_from_origin(2) [of tm "scenarioEnv e" "scenarioConfig c"]
  show "paraDist pt 30 = tm * (25 * (sqrt 2 / 2) - (981 / 400) * tm)"
    unfolding pt_def a toRad_30 toRad_45 cos_45 sin_30 by (simp add: algebra_simps)
  from flight_from_origin(3) [of tm "scenarioEnv e" "scenarioConfig c"]
  show "y pt = tm * (25 * ((sqrt 2 / 2) * (1 / 2 + sqrt 3 / 2)) - (981 / 200) * tm)"
    unfolding pt_def a toRad_30 toRad_45 s75 by (simp add: algebra_simps)
qed

lemma scenario_above_floor:
  assumes "0 \<le> tm" "tm \<le> 4.2"
  shows "0 \<le> tm * (25 * ((sqrt 2 / 2) * (1 / 2 + sqrt 3 / 2)) - (981 / 200) * tm)"
proof -
  have "0.707 * 1.366 \<le> (sqrt 2 / 2) * (1 / 2 + sqrt 3 / 2)"
    using sqrt2_bounds sqrt3_bounds by (intro mult_mono) simp_all
  with assms have "0 \<le> 25 * ((sqrt 2 / 2) * (1 / 2 + sqrt 3 / 2)) - (981 / 200) * tm"
    by simp
  with assms(1) show ?thesis by (rule mult_nonneg_nonneg)
qed

lemma scenario_clear:
  assumes "0.2 \<le> tm" "tm \<le> 4.1"
  shows "0.05 < tm * (25 * (sqrt 2 / 2) - (981 / 200) * (sqrt 3 / 2) * tm)"
proof -
  define w where "w = sqrt 3 * tm"
  have "sqrt 3 * tm \<le> 1.73206 * 4.1"
    using sqrt3_bounds assms by (intro mult_mono) simp_all
  then have w: "w \<le> 1.73206 * 4.1" by (simp add: w_def)
  have eq: "25 * (sqrt 2 / 2) - (981 / 200) * (sqrt 3 / 2) * tm = 25 * (sqrt 2 / 2) - (981 / 400) * w"
    by (simp add: w_def)
  have "0.2613 \<le> 25 * (sqrt 2 / 2) - (981 / 400) * w"
    using sqrt2_bounds w by simp
  then have low: "0.2613 \<le> 25 * (sqrt 2 / 2) - (981 / 200) * (sqrt 3 / 2) * tm"
    by (simp only: eq)
  have "0.2 * 0.2613 \<le> tm * (25 * (sqrt 2 / 2) - (981 / 200) * (sqrt 3 / 2) * tm)"
    using assms(1) low by (intro mult_mono) simp_all
  then show ?thesis by simp
qed

lemma scenario_landing:
  "(42 / 10) * (25 * (sqrt 2 / 2) - (981 / 200) * (sqrt 3 / 2) * (42 / 10)) \<le> (0.05 :: real)"
  "- 5 \<le> (42 / 10) * (25 * (sqrt 2 / 2) - (981 / 400) * (42 / 10 :: real))"
  "(42 / 10) * (25 * (sqrt 2 / 2) - (981 / 400) * (42 / 10)) \<le> (120 :: real)"
  using sqrt2_bounds sqrt3_bounds by simp_all

lemma scenario_samples:
  fixes c :: ProjectileConfig and e :: EnvironmentConfig
  defines "pt \<equiv> \<lambda>tm. position (calculatePhysics tm (scenarioEnv e) \<lparr> x = 0, y = 0 \<rparr>
                     (vel (getInitialState (scenarioConfig c) (scenarioEnv e))))"
  shows "predictTrajectory (scenarioConfig c) (scenarioEnv e)
         = map (\<lambda>k. pt (real k / 10)) [0..<43]"
    and "checkCollision (pt (42 / 10)) (angleIncline (scenarioEnv e))"
proof -
  let ?E = "scenarioEnv e"
  let ?vl = "vel (getInitialState (scenarioConfig c) ?E)"
  have ang: "angleIncline ?E = 30"
    by (simp add: scenarioEnv_def)
  have early: "\<not> (checkCollision (pt (0 + real k * predict_dt)) (angleIncline ?E)
                   \<and> 0 + real k * predict_dt > 0.1)
               \<and> \<not> y (pt (0 + real k * predict_dt)) < -10" if "k < 42" for k
  proof -
    let ?tm = "0 + real k * predict_dt"
    from that have "real k \<le> 41" by simp
    then have range: "0 \<le> ?tm" "?tm \<le> 4.1"
      by (simp_all add: predict_dt_def)
    have "0 \<le> y (pt ?tm)"
      unfolding pt_def scenario_dists(3) using range by (intro scenario_above_floor) simp_all
    then have floor: "\<not> y (pt ?tm) < -10" by simp
    have "\<not> (checkCollision (pt ?tm) 30 \<and> ?tm > 0.1)"
    proof (cases "k \<le> 1")
      case True
      then have "real k \<le> 1" by simp
      then have "?tm \<le> 0.1" by (simp add: predict_dt_def)
      then show ?thesis by simp
    next
      case False
      then have "2 \<le> real k" by simp
      then have "0.2 \<le> ?tm" by (simp add: predict_dt_def)
      then have "0.05 < perpDist (pt ?tm) 30"
        unfolding pt_def scenario_dists(1) using range(2) by (intro scenario_clear)
      then show ?thesis by (simp add: checkCollision_def)
    qed
    with floor show ?thesis by (simp only: ang simp_thms)
  qed
  have hit: "checkCollision (pt (42 / 10)) 30"
    unfolding checkCollision_def Let_def pt_def scenario_dists(1) scenario_dists(2) INCLINE_LENGTH_def
    using scenario_landing by simp
  then show "checkCollision (pt (42 / 10)) (angleIncline ?E)"
    by (simp only: ang)
  have t42: "0 + real 42 * predict_dt = 42 / 10"
    by (simp add: predict_dt_def)
  have "predictLoop ?E \<lparr> x = 0, y = 0 \<rparr> ?vl 0 []
        = [] @ map (\<lambda>k. position (calculatePhysics (0 + real k * predict_dt) ?E \<lparr> x = 0, y = 0 \<rparr> ?vl))
                 [0..<Suc 42]"
  proof (rule predictLoop_samples)
    show "\<forall>k<42. \<not> (checkCollision (position (calculatePhysics (0 + real k * predict_dt) ?E
                         \<lparr> x = 0, y = 0 \<rparr> ?vl)) (angleIncline ?E)
                     \<and> 0 + real k * predict_dt > 0.1)
               \<and> \<not> y (position (calculatePhysics (0 + real k * predict_dt) ?E
                         \<lparr> x = 0, y = 0 \<rparr> ?vl)) < -10"
      using early unfolding pt_def by blast
    show "0 + real 42 * predict_dt \<le> predict_maxTime"
      by (simp add: predict_dt_def predict_maxTime_def)
    show "(checkCollision (position (calculatePhysics (0 + real 42 * predict_dt) ?E
                \<lparr> x = 0, y = 0 \<rparr> ?vl)) (angleIncline ?E)
            \<and> 0 + real 42 * predict_dt > 0.1)
         \<or> y (position (calculatePhysics (0 + real 42 * predict_dt) ?E
                \<lparr> x = 0, y = 0 \<rparr> ?vl)) < -10"
      using hit unfolding t42 ang pt_def by simp
  qed
  then show "predictTrajectory (scenarioConfig c) ?E = map (\<lambda>k. pt (real k / 10)) [0..<43]"
    by (simp add: predictTrajectory_def Let_def scenario_start pt_def predict_dt_def)
qed

lemma legalFlags_iff: "legalFlags st \<longleftrightarrow> \<not> (isPlaying st \<and> isFinished st)"
  by (auto simp add: legalFlags_def)

lemma legal_createProjectile: "legalFlags (state (createProjectile e i n c u))"
  by (simp add: createProjectile_def Let_def legalFlags_iff)

lemma legal_envEffect: "legalFlags (state p) \<Longrightarrow> legalFlags (state (envEffect e p))"
  by (simp add: envEffect_def Let_def legalFlags_iff)

lemma legal_launchOne: "legalFlags (state p) \<Longrightarrow> legalFlags (state (launchOne e i p))"
  by (simp add: launchOne_def Let_def legalFlags_iff)

lemma legal_animateProjectile:
  "legalFlags (state p) \<Longrightarrow> legalFlags (state (animateProjectile e p))"
  by (simp add: animateProjectile_def Let_def legalFlags_iff)

lemma allLegal_addProjectile: "allLegal s \<Longrightarrow> allLegal (addProjectile s)"
  by (auto simp add: allLegal_def addProjectile_def Let_def legal_createProjectile)

lemma allLegal_removeProjectile: "allLegal s \<Longrightarrow> allLegal (removeProjectile s i)"
  by (auto simp add: allLegal_def removeProjectile_def)

lemma allLegal_updateProjectileConfig: "allLegal s \<Longrightarrow> allLegal (updateProjectileConfig s i u)"
  by (auto simp add: allLegal_def updateProjectileConfig_def Let_def legalFlags_iff)

lemma allLegal_setEnv: "allLegal s \<Longrightarrow> allLegal (setEnv s e)"
  by (auto simp add: allLegal_def setEnv_def legal_envEffect)

lemma allLegal_launchProjectile: "allLegal s \<Longrightarrow> allLegal (launchProjectile s i)"
  by (auto simp add: allLegal_def launchProjectile_def legal_launchOne)

lemma allLegal_launchAll: "allLegal (launchAll s)"
  by (auto simp add: allLegal_def launchAll_def Let_def legalFlags_iff)

lemma allLegal_resetAll: "allLegal (resetAll s)"
  by (auto simp add: allLegal_def resetAll_def Let_def legalFlags_iff)

lemma allLegal_animate: "allLegal s \<Longrightarrow> allLegal (animate s)"
  by (auto simp add: allLegal_def animate_def legal_animateProjectile)

lemma allLegal_step: "allLegal s \<Longrightarrow> allLegal (step s a)"
  by (cases a)
    (simp_all add: allLegal_addProjectile allLegal_removeProjectile
      allLegal_updateProjectileConfig allLegal_setEnv allLegal_launchProjectile
      allLegal_launchAll allLegal_resetAll allLegal_animate)

lemma allLegal_run: "allLegal s \<Longrightarrow> allLegal (run s acts)"
  by (induction acts arbitrary: s) (simp_all add: allLegal_step)

lemma allLegal_initialApp: "allLegal initialApp"
  by (simp add: allLegal_def initialApp_def legal_envEffect legal_createProjectile)

lemma flatScript_run: "projectiles (run initialApp flatScript) = [landedShot]"
  by (simp add: flatScript_def initialApp_def initialEnv_def flatEnv_def landedShot_def
      flatConfig_def noUpdates_def COLORS_def namePrefix_def
      setEnv_def envEffect_def updateProjectileConfig_def mergeConfig_def createProjectile_def
      launchAll_def animate_def animateProjectile_def
      calculatePhysics_def getInitialState_def checkCollision_def perpDist_def paraDist_def
      INCLINE_LENGTH_def js_round_def js_rem_def Let_def toRad_0)

section \<open>Kinematic integrator\<close>

text \<open>
  C1. For every elapsed time, gravity, initial position and initial velocity,
  \<^verbatim>\<open>calculatePhysics\<close> returns the position
  \<open>(p0.x + v0.x * t, p0.y + v0.y * t - g * t\<^sup>2 / 2)\<close> and the velocity
  \<open>(v0.x, v0.y - g * t)\<close>; the horizontal position has no acceleration term, so it is
  the same for every gravity. The statement holds for every \<open>t\<close>, in particular for \<open>t \<ge> 0\<close>.
\<close>

theorem calculatePhysics_closed_form:
  "calculatePhysics tm e p0 vl =
     \<lparr> position = \<lparr> x = x p0 + x vl * tm, y = y p0 + y vl * tm - gravity e * tm\<^sup>2 / 2 \<rparr>,
       velocity = \<lparr> x = x vl, y = y vl - gravity e * tm \<rparr> \<rparr>
   \<and> x (position (calculatePhysics tm (e\<lparr>gravity := g'\<rparr>) p0 vl))
       = x (position (calculatePhysics tm e p0 vl))"
  by (simp add: calculatePhysics_def Let_def power2_eq_square)

section \<open>Per-tick state machine: landing\<close>

text \<open>
  C2. For a projectile that is playing and not finished, one call of \<^verbatim>\<open>animate\<close> takes
  the next time to be the current time plus one sixtieth of the environment's time scale,
  resolves the initial velocity again from the current config and environment with
  \<^verbatim>\<open>getInitialState\<close>, and evaluates \<^verbatim>\<open>calculatePhysics\<close> at the next time from
  the stored start position. If that position collides with the incline and the next time
  is greater than 0.1, the new state is finished and not playing, holds the collision
  position and the next time, and has the velocity (0, 0); start position and path stay.
\<close>

theorem animateProjectile_hit:
  "isPlaying (state p) \<Longrightarrow> \<not> isFinished (state p) \<Longrightarrow>
   nextT = t (state p) + (1 / 60) * timeScale e \<Longrightarrow>
   physics = calculatePhysics nextT e (startPosition (state p))
               (vel (getInitialState (config p) e)) \<Longrightarrow>
   checkCollision (position physics) (angleIncline e) \<Longrightarrow> nextT > 0.1 \<Longrightarrow>
   animateProjectile e p
     = p\<lparr> state := \<lparr> position = position physics,
                       velocity = \<lparr> x = 0, y = 0 \<rparr>,
                       t = nextT,
                       isPlaying = False,
                       isFinished = True,
                       startPosition = startPosition (state p),
                       path = path (state p) \<rparr> \<rparr>"
  by (simp add: animateProjectile_def Let_def)

theorem animateProjectile_hit_witness:
  "animateProjectile flatEnv flyingShot
     = flyingShot\<lparr> state := \<lparr> position = \<lparr> x = 35 / 12, y = - 5341 / 80000 \<rparr>,
                       velocity = \<lparr> x = 0, y = 0 \<rparr>,
                       t = 7 / 60,
                       isPlaying = False,
                       isFinished = True,
                       startPosition = \<lparr> x = 0, y = 0 \<rparr>,
                       path = [\<lparr> x = 0, y = 0 \<rparr>, \<lparr> x = 25 / 12, y = - 109 / 3200 \<rparr>] \<rparr> \<rparr>"
  using animateProjectile_hit [of flyingShot "7 / 60" flatEnv
          "calculatePhysics (7 / 60) flatEnv (startPosition (state flyingShot))
             (vel (getInitialState (config flyingShot) flatEnv))"]
  by (simp add: flatEnv_def flyingShot_def flatConfig_def calculatePhysics_def getInitialState_def
        checkCollision_def perpDist_def paraDist_def INCLINE_LENGTH_def Let_def toRad_0)

section \<open>Initial-state resolver\<close>

text \<open>
  C3. \<^verbatim>\<open>getInitialState\<close> returns the start position (0, 0) for \<open>Bottom\<close> and
  \<open>(100 cos \<theta>, 100 sin \<theta>)\<close> for \<open>Top\<close>, with \<open>\<theta>\<close> the incline angle in radians, and
  the start velocity \<open>(v0 cos (\<theta> + \<beta>), v0 sin (\<theta> + \<beta>))\<close> with \<open>\<beta>\<close> the launch angle
  relative to the incline. Started at the top of a 30 degree incline, the position is
  \<open>(50 \<surd>3, 50)\<close>, within 0.01 of (86.6, 50.0).
\<close>

theorem getInitialState_spec:
  "getInitialState c e =
     \<lparr> pos = (case startPos c of
                Bottom \<Rightarrow> \<lparr> x = 0, y = 0 \<rparr>
              | Top \<Rightarrow> \<lparr> x = 100 * cos (toRad (angleIncline e)),
                         y = 100 * sin (toRad (angleIncline e)) \<rparr>),
       vel = \<lparr> x = v0 c * cos (toRad (angleIncline e) + toRad (angleLaunch c)),
               y = v0 c * sin (toRad (angleIncline e) + toRad (angleLaunch c)) \<rparr> \<rparr>
   \<and> pos (getInitialState (c\<lparr> startPos := Top \<rparr>) (e\<lparr> angleIncline := 30 \<rparr>))
       = \<lparr> x = 50 * sqrt 3, y = 50 \<rparr>
   \<and> \<bar>50 * sqrt 3 - 86.6\<bar> < 0.01"
proof -
  have a: "getInitialState c e =
     \<lparr> pos = (case startPos c of
                Bottom \<Rightarrow> \<lparr> x = 0, y = 0 \<rparr>
              | Top \<Rightarrow> \<lparr> x = 100 * cos (toRad (angleIncline e)),
                         y = 100 * sin (toRad (angleIncline e)) \<rparr>),
       vel = \<lparr> x = v0 c * cos (toRad (angleIncline e) + toRad (angleLaunch c)),
               y = v0 c * sin (toRad (angleIncline e) + toRad (angleLaunch c)) \<rparr> \<rparr>"
    by (cases "startPos c") (simp_all add: getInitialState_def Let_def INCLINE_LENGTH_def)
  have b: "pos (getInitialState (c\<lparr> startPos := Top \<rparr>) (e\<lparr> angleIncline := 30 \<rparr>))
       = \<lparr> x = 50 * sqrt 3, y = 50 \<rparr>"
    by (simp add: getInitialState_def Let_def INCLINE_LENGTH_def toRad_30 cos_30 sin_30)
  have "1.732 < sqrt 3" by (rule real_less_rsqrt) (simp add: power2_eq_square)
  moreover have "sqrt 3 < 1.7321" by (rule real_less_lsqrt) (simp_all add: power2_eq_square)
  ultimately have c: "\<bar>50 * sqrt 3 - 86.6\<bar> < 0.01" by simp
  from a b c show ?thesis by blast
qed

section \<open>Collision detector\<close>

text \<open>
  C4. \<^verbatim>\<open>checkCollision\<close> is true exactly when the signed perpendicular distance of the
  point to the incline line is at most 0.05 and its parallel distance along the incline is
  between -5 and 120, the incline's length plus 20. At the incline angle 0 a point
  \<open>(r, 0.0)\<close> collides exactly when \<open>r\<close> is in [-5, 120], and no point \<open>(r, 1.0)\<close> collides.
\<close>

theorem checkCollision_spec:
  "checkCollision p a =
     (- x p * sin (toRad a) + y p * cos (toRad a) \<le> 0.05
      \<and> -5 \<le> x p * cos (toRad a) + y p * sin (toRad a)
      \<and> x p * cos (toRad a) + y p * sin (toRad a) \<le> 100 + 20)
   \<and> checkCollision \<lparr> x = r, y = 0.0 \<rparr> 0 = (-5 \<le> r \<and> r \<le> 120)
   \<and> \<not> checkCollision \<lparr> x = r, y = 1.0 \<rparr> 0"
  by (auto simp add: checkCollision_def perpDist_def paraDist_def Let_def INCLINE_LENGTH_def toRad_0)

text \<open>The boundary case at the middle of the incline.\<close>

theorem checkCollision_spec_witness:
  "checkCollision \<lparr> x = 50, y = 0.0 \<rparr> 0 \<and> \<not> checkCollision \<lparr> x = 50, y = 1.0 \<rparr> 0"
  using checkCollision_spec [of "\<lparr> x = 50, y = 0 \<rparr>" 0 50] by (simp add: toRad_0)

section \<open>Incline frame transform\<close>

text \<open>
  C5. For every vector and every incline angle (so for every angle from 0 to 80 degrees),
  the sum of the parallel and the perpendicular component vectors returned by
  \<^verbatim>\<open>projectToIncline\<close> is the vector itself, exactly over the reals. The parallel
  component is its magnitude times the unit vector \<open>(cos \<theta>, sin \<theta>)\<close>, the perpendicular
  component its magnitude times \<open>(- sin \<theta>, cos \<theta>)\<close>, and each magnitude is the scalar
  product of the vector with that unit vector.
\<close>

theorem projectToIncline_roundtrip:
  "x (parallel (projectToIncline v a)) + x (perpendicular (projectToIncline v a)) = x v
   \<and> y (parallel (projectToIncline v a)) + y (perpendicular (projectToIncline v a)) = y v
   \<and> parallel (projectToIncline v a)
       = \<lparr> x = cos (toRad a) * mag (parallel (projectToIncline v a)),
           y = sin (toRad a) * mag (parallel (projectToIncline v a)),
           mag = x v * cos (toRad a) + y v * sin (toRad a) \<rparr>
   \<and> perpendicular (projectToIncline v a)
       = \<lparr> x = - sin (toRad a) * mag (perpendicular (projectToIncline v a)),
           y = cos (toRad a) * mag (perpendicular (projectToIncline v a)),
           mag = x v * (- sin (toRad a)) + y v * cos (toRad a) \<rparr>"
proof -
  have sc: "sin (toRad a) * sin (toRad a) + cos (toRad a) * cos (toRad a) = 1"
    using sin_cos_squared_add [of "toRad a"] by (simp add: power2_eq_square)
  have un: "parallel (projectToIncline v a)
       = \<lparr> x = cos (toRad a) * mag (parallel (projectToIncline v a)),
           y = sin (toRad a) * mag (parallel (projectToIncline v a)),
           mag = x v * cos (toRad a) + y v * sin (toRad a) \<rparr>
   \<and> perpendicular (projectToIncline v a)
       = \<lparr> x = - sin (toRad a) * mag (perpendicular (projectToIncline v a)),
           y = cos (toRad a) * mag (perpendicular (projectToIncline v a)),
           mag = x v * (- sin (toRad a)) + y v * cos (toRad a) \<rparr>"
    by (simp add: projectToIncline_def Let_def)
  have px: "x (parallel (projectToIncline v a)) + x (perpendicular (projectToIncline v a))
        = cos (toRad a) * (x v * cos (toRad a) + y v * sin (toRad a))
          + - sin (toRad a) * (x v * (- sin (toRad a)) + y v * cos (toRad a))"
    by (simp add: projectToIncline_def Let_def)
  have py: "y (parallel (projectToIncline v a)) + y (perpendicular (projectToIncline v a))
        = sin (toRad a) * (x v * cos (toRad a) + y v * sin (toRad a))
          + cos (toRad a) * (x v * (- sin (toRad a)) + y v * cos (toRad a))"
    by (simp add: projectToIncline_def Let_def)
  from px py rotate_back [OF sc, of "x v" "y v"] un show ?thesis
    by (simp only:) 
qed

section \<open>Flight flags\<close>

text \<open>
  C6. In every state that the application reaches from its first render by any sequence of
  its operations (adding and removing a projectile, a config edit, an environment change
  with its effect, launch, launch-all, reset-all and the tick), no projectile is playing
  and finished at once: its flags are one of (not playing, not finished),
  (playing, not finished), (not playing, finished). Each single operation keeps this for
  every list of projectiles that has it, and a created projectile has it.
\<close>

theorem flags_never_playing_and_finished:
  "(\<forall>p \<in> set (projectiles (run initialApp acts)).
      legalFlags (state p) \<and> \<not> (isPlaying (state p) \<and> isFinished (state p)))
   \<and> ((\<forall>p \<in> set (projectiles s). legalFlags (state p))
        \<longrightarrow> (\<forall>p \<in> set (projectiles (step s a)). legalFlags (state p)))
   \<and> legalFlags (state (createProjectile e i n c u))"
proof -
  have "allLegal (run initialApp acts)"
    by (rule allLegal_run [OF allLegal_initialApp])
  then have a: "\<forall>p \<in> set (projectiles (run initialApp acts)).
      legalFlags (state p) \<and> \<not> (isPlaying (state p) \<and> isFinished (state p))"
    by (simp add: allLegal_def legalFlags_iff)
  have b: "(\<forall>p \<in> set (projectiles s). legalFlags (state p))
        \<longrightarrow> (\<forall>p \<in> set (projectiles (step s a)). legalFlags (state p))"
    using allLegal_step [of s a] by (simp only: allLegal_def) blast
  from a b legal_createProjectile [of e i n c u] show ?thesis
    by (simp only: simp_thms)
qed

theorem flags_never_playing_and_finished_witness:
  "projectiles (run initialApp flatScript) = [landedShot]
   \<and> legalFlags (state landedShot)
   \<and> \<not> isPlaying (state landedShot) \<and> isFinished (state landedShot)"
  using flags_never_playing_and_finished [of flatScript] flatScript_run
  by (simp add: landedShot_def)

section \<open>Trajectory predictor\<close>

text \<open>
  C7. For a config with launch speed 25, launch angle 45 degrees and start at the bottom,
  and an environment with a 30 degree incline and gravity 9.81, \<^verbatim>\<open>predictTrajectory\<close>
  returns a list of 43 positions, the samples of the trajectory at the times
  0, 0.1, ..., 4.2, all within the horizon of 10 seconds. Its last element, the sample at
  4.2 seconds, satisfies \<^verbatim>\<open>checkCollision\<close>; so the last element collides or has
  \<open>y\<close> below -10.
\<close>

theorem predictTrajectory_scenario:
  "predictTrajectory (scenarioConfig c) (scenarioEnv e)
     = map (\<lambda>k. position (calculatePhysics (real k / 10) (scenarioEnv e)
                    (pos (getInitialState (scenarioConfig c) (scenarioEnv e)))
                    (vel (getInitialState (scenarioConfig c) (scenarioEnv e))))) [0..<43]
   \<and> length (predictTrajectory (scenarioConfig c) (scenarioEnv e)) = 43
   \<and> 42 / 10 \<le> predict_maxTime
   \<and> last (predictTrajectory (scenarioConfig c) (scenarioEnv e))
       = position (calculatePhysics (42 / 10) (scenarioEnv e)
                    (pos (getInitialState (scenarioConfig c) (scenarioEnv e)))
                    (vel (getInitialState (scenarioConfig c) (scenarioEnv e))))
   \<and> checkCollision (last (predictTrajectory (scenarioConfig c) (scenarioEnv e)))
         (angleIncline (scenarioEnv e))
   \<and> (checkCollision (last (predictTrajectory (scenarioConfig c) (scenarioEnv e)))
          (angleIncline (scenarioEnv e))
       \<or> y (last (predictTrajectory (scenarioConfig c) (scenarioEnv e))) < -10)"
proof -
  let ?pt = "\<lambda>tm. position (calculatePhysics tm (scenarioEnv e) \<lparr> x = 0, y = 0 \<rparr>
                     (vel (getInitialState (scenarioConfig c) (scenarioEnv e))))"
  have run: "predictTrajectory (scenarioConfig c) (scenarioEnv e)
      = map (\<lambda>k. ?pt (real k / 10)) [0..<43]"
    by (rule scenario_samples(1))
  have "[0..<43] = [0..<42] @ [42]"
    using upt_Suc_append [of 0 42] by simp
  then have "last (map (\<lambda>k. ?pt (real k / 10)) [0..<43]) = ?pt (42 / 10)"
    by simp
  with run have lst: "last (predictTrajectory (scenarioConfig c) (scenarioEnv e)) = ?pt (42 / 10)"
    by simp
  have len: "length (predictTrajectory (scenarioConfig c) (scenarioEnv e)) = 43"
    unfolding run by simp
  have hit: "checkCollision (last (predictTrajectory (scenarioConfig c) (scenarioEnv e)))
         (angleIncline (scenarioEnv e))"
    unfolding lst by (rule scenario_samples(2))
  have hor: "42 / 10 \<le> predict_maxTime"
    by (simp add: predict_maxTime_def)
  from run len hor lst hit show ?thesis
    by (simp only: scenario_start simp_thms)
qed

section \<open>Relaunch\<close>

text \<open>
  C8. Launching a projectile that is finished (and not playing) replaces its state by
  \<open>t = 0\<close>, playing, not finished, with position, start position and velocity computed by
  \<^verbatim>\<open>getInitialState\<close> from the current config and environment and the path holding only
  that start position. The new state is the same whatever the finished state was: no field
  of the old state, in particular its velocity, is read.
\<close>

theorem launchProjectile_relaunch:
  "k < length (projectiles s) \<Longrightarrow> entity_id (projectiles s ! k) = i \<Longrightarrow>
   \<not> isPlaying (state (projectiles s ! k)) \<Longrightarrow> isFinished (state (projectiles s ! k)) \<Longrightarrow>
   projectiles (launchProjectile s i) ! k
     = (projectiles s ! k)
         \<lparr> state := \<lparr> position = pos (getInitialState (config (projectiles s ! k)) (env s)),
                       velocity = vel (getInitialState (config (projectiles s ! k)) (env s)),
                       t = 0,
                       isPlaying = True,
                       isFinished = False,
                       startPosition = pos (getInitialState (config (projectiles s ! k)) (env s)),
                       path = [pos (getInitialState (config (projectiles s ! k)) (env s))] \<rparr> \<rparr>
   \<and> (\<forall>st. \<not> isPlaying st \<and> isFinished st \<longrightarrow>
          state (launchOne (env s) i ((projectiles s ! k)\<lparr> state := st \<rparr>))
            = state (projectiles (launchProjectile s i) ! k))"
  by (simp add: launchProjectile_def launchOne_def Let_def)

theorem launchProjectile_relaunch_witness:
  "state (projectiles (launchProjectile landedApp ''p1'') ! 0)
     = \<lparr> position = \<lparr> x = 0, y = 0 \<rparr>,
         velocity = \<lparr> x = 25, y = 0 \<rparr>,
         t = 0,
         isPlaying = True,
         isFinished = False,
         startPosition = \<lparr> x = 0, y = 0 \<rparr>,
         path = [\<lparr> x = 0, y = 0 \<rparr>] \<rparr>"
  using launchProjectile_relaunch [of 0 landedApp "''p1''"]
  by (simp add: landedApp_def landedShot_def flatConfig_def flatEnv_def getInitialState_def
        Let_def toRad_0)

section \<open>Per-tick state machine: leaving the bounds\<close>

text \<open>
  C9. For a playing projectile whose tick gives a position that is not an honoured hit
  (no collision, or the next time is not above 0.1) but lies below \<open>y = -30\<close> or beyond
  \<open>x = 250\<close>, the tick sets the flags to not playing and finished and changes nothing
  else: time, position, velocity (not zeroed), start position and path keep their values.
\<close>

theorem animateProjectile_out_of_bounds:
  "isPlaying (state p) \<Longrightarrow> \<not> isFinished (state p) \<Longrightarrow>
   nextT = t (state p) + (1 / 60) * timeScale e \<Longrightarrow>
   physics = calculatePhysics nextT e (startPosition (state p))
               (vel (getInitialState (config p) e)) \<Longrightarrow>
   \<not> (checkCollision (position physics) (angleIncline e) \<and> nextT > 0.1) \<Longrightarrow>
   y (position physics) < -30 \<or> x (position physics) > 250 \<Longrightarrow>
   animateProjectile e p = p\<lparr> state := (state p)\<lparr> isPlaying := False, isFinished := True \<rparr> \<rparr>
   \<and> \<not> isPlaying (state (animateProjectile e p))
   \<and> isFinished (state (animateProjectile e p))
   \<and> t (state (animateProjectile e p)) = t (state p)
   \<and> position (state (animateProjectile e p)) = position (state p)
   \<and> velocity (state (animateProjectile e p)) = velocity (state p)
   \<and> startPosition (state (animateProjectile e p)) = startPosition (state p)
   \<and> path (state (animateProjectile e p)) = path (state p)
   \<and> entity_id (animateProjectile e p) = entity_id p
   \<and> config (animateProjectile e p) = config p"
proof -
  assume a: "isPlaying (state p)" "\<not> isFinished (state p)"
    and n: "nextT = t (state p) + (1 / 60) * timeScale e"
    and ph: "physics = calculatePhysics nextT e (startPosition (state p))
               (vel (getInitialState (config p) e))"
    and nohit: "\<not> (checkCollision (position physics) (angleIncline e) \<and> nextT > 0.1)"
    and out: "y (position physics) < -30 \<or> x (position physics) > 250"
  from a nohit out
  have "animateProjectile e p = p\<lparr> state := (state p)\<lparr> isPlaying := False, isFinished := True \<rparr> \<rparr>"
    unfolding animateProjectile_def Let_def n [symmetric] ph [symmetric] by (simp only: if_False if_True simp_thms)
  then show ?thesis by simp
qed

theorem animateProjectile_out_of_bounds_witness:
  "\<not> checkCollision \<lparr> x = 760 / 3, y = - 57661 / 20000 \<rparr> 0
   \<and> animateProjectile flatEnv leavingShot
     = leavingShot\<lparr> state := \<lparr> position = \<lparr> x = 250, y = - 8829 / 3200 \<rparr>,
                 velocity = \<lparr> x = 200, y = - 2943 / 400 \<rparr>,
                 t = 3 / 4, isPlaying = False, isFinished = True,
                 startPosition = \<lparr> x = 100, y = 0 \<rparr>,
                 path = [\<lparr> x = 100, y = 0 \<rparr>] \<rparr> \<rparr>"
  using animateProjectile_out_of_bounds [of leavingShot "23 / 30" flatEnv
          "calculatePhysics (23 / 30) flatEnv (startPosition (state leavingShot))
             (vel (getInitialState (config leavingShot) flatEnv))"]
  by (simp add: flatEnv_def leavingShot_def fastConfig_def calculatePhysics_def getInitialState_def
        checkCollision_def perpDist_def paraDist_def INCLINE_LENGTH_def Let_def toRad_0)

section \<open>The origin collides\<close>

text \<open>
  C10. For every incline angle the origin (0, 0) has perpendicular and parallel distance 0
  and \<^verbatim>\<open>checkCollision\<close> is true for it, so the start position of every projectile started
  at the bottom collides. Both the tick and the predictor honour a hit only when the time
  is greater than 0.1. A tick whose next time is at most 0.1 and whose position is inside
  the bounds leaves the projectile playing, whether or not the position collides; a tick
  whose next time is greater than 0.1 and whose position collides lands it. A round of the
  predictor's loop at a time of at most 0.1, with \<open>y\<close> not below -10, pushes the sample and
  goes on to the next time, whether or not the sample collides; a round at a time greater
  than 0.1 whose sample collides ends the loop with that sample. So the prediction for a start
  at the bottom has at least two points, and at least three when the sample at 0.1 is not
  below -10.
\<close>

theorem origin_collides:
  "perpDist \<lparr> x = 0, y = 0 \<rparr> a = 0
   \<and> paraDist \<lparr> x = 0, y = 0 \<rparr> a = 0
   \<and> checkCollision \<lparr> x = 0, y = 0 \<rparr> a
   \<and> checkCollision (pos (getInitialState (c\<lparr> startPos := Bottom \<rparr>) e)) (angleIncline e)
   \<and> 2 \<le> length (predictTrajectory (c\<lparr> startPos := Bottom \<rparr>) e)
   \<and> (isPlaying (state p) \<and> \<not> isFinished (state p)
       \<and> t (state p) + (1 / 60) * timeScale e \<le> 0.1
       \<and> \<not> (y (position (calculatePhysics (t (state p) + (1 / 60) * timeScale e) e
                (startPosition (state p)) (vel (getInitialState (config p) e)))) < -30
           \<or> x (position (calculatePhysics (t (state p) + (1 / 60) * timeScale e) e
                (startPosition (state p)) (vel (getInitialState (config p) e)))) > 250)
       \<longrightarrow> isPlaying (state (animateProjectile e p))
           \<and> \<not> isFinished (state (animateProjectile e p)))
   \<and> (isPlaying (state q) \<and> \<not> isFinished (state q)
       \<and> 0.1 < t (state q) + (1 / 60) * timeScale e
       \<and> checkCollision (position (calculatePhysics (t (state q) + (1 / 60) * timeScale e) e
            (startPosition (state q)) (vel (getInitialState (config q) e)))) (angleIncline e)
       \<longrightarrow> \<not> isPlaying (state (animateProjectile e q))
           \<and> isFinished (state (animateProjectile e q))
           \<and> velocity (state (animateProjectile e q)) = \<lparr> x = 0, y = 0 \<rparr>)
   \<and> (tm \<le> 0.1 \<and> \<not> y (position (calculatePhysics tm e p0 vl)) < -10
       \<longrightarrow> predictLoop e p0 vl tm points
           = predictLoop e p0 vl (tm + predict_dt)
               (points @ [position (calculatePhysics tm e p0 vl)]))
   \<and> (0.1 < tm' \<and> tm' \<le> predict_maxTime
       \<and> checkCollision (position (calculatePhysics tm' e p0 vl)) (angleIncline e)
       \<longrightarrow> predictLoop e p0 vl tm' points = points @ [position (calculatePhysics tm' e p0 vl)])
   \<and> (\<not> y (position (calculatePhysics (0 + predict_dt) e \<lparr> x = 0, y = 0 \<rparr>
                (vel (getInitialState (c\<lparr> startPos := Bottom \<rparr>) e)))) < -10
       \<longrightarrow> 3 \<le> length (predictTrajectory (c\<lparr> startPos := Bottom \<rparr>) e))"
proof -
  have start: "checkCollision (pos (getInitialState (c\<lparr> startPos := Bottom \<rparr>) e)) (angleIncline e)"
    by (simp only: bottom_start origin_hit)
  from origin_dists [of a] origin_hit [of a] start predict_bottom_two [of c e]
    grace_tick [of p e] tick_honoured [of q e] predict_grace [of tm e p0 vl points]
    predict_honoured [of tm' e p0 vl points] predict_bottom_three [of e c]
  show ?thesis by blast
qed

theorem origin_collides_witness:
  "checkCollision (position (calculatePhysics (1 / 60) flatEnv (startPosition (state freshShot))
       (vel (getInitialState (config freshShot) flatEnv)))) (angleIncline flatEnv)
   \<and> isPlaying (state (animateProjectile flatEnv freshShot))
   \<and> \<not> isFinished (state (animateProjectile flatEnv freshShot))
   \<and> isFinished (state (animateProjectile flatEnv flyingShot))
   \<and> checkCollision \<lparr> x = 5 / 2, y = - 981 / 20000 \<rparr> (angleIncline flatEnv)
   \<and> predictTrajectory flatConfig flatEnv
       = [\<lparr> x = 0, y = 0 \<rparr>, \<lparr> x = 5 / 2, y = - 981 / 20000 \<rparr>, \<lparr> x = 5, y = - 981 / 5000 \<rparr>]
   \<and> 3 \<le> length (predictTrajectory (flatConfig\<lparr> startPos := Bottom \<rparr>) flatEnv)"
proof -
  let ?o = "\<lparr> x = 0, y = 0 \<rparr> :: Vector2"
  let ?vl = "\<lparr> x = 25, y = 0 \<rparr> :: Vector2"
  let ?pt = "\<lambda>tm. position (calculatePhysics tm flatEnv ?o ?vl)"
  have ini: "getInitialState flatConfig flatEnv = \<lparr> pos = ?o, vel = ?vl \<rparr>"
    "getInitialState (flatConfig\<lparr> startPos := Bottom \<rparr>) flatEnv = \<lparr> pos = ?o, vel = ?vl \<rparr>"
    by (simp_all add: flatEnv_def flatConfig_def getInitialState_def Let_def toRad_0)
  have pts: "?pt 0 = ?o" "?pt (1 / 10) = \<lparr> x = 5 / 2, y = - 981 / 20000 \<rparr>"
    "?pt (1 / 5) = \<lparr> x = 5, y = - 981 / 5000 \<rparr>"
    by (simp_all add: flatEnv_def calculatePhysics_def Let_def)
  have ang: "angleIncline flatEnv = 0"
    by (simp add: flatEnv_def)
  have tickhit: "checkCollision (position (calculatePhysics (1 / 60) flatEnv
       (startPosition (state freshShot)) (vel (getInitialState (config freshShot) flatEnv))))
       (angleIncline flatEnv)"
    by (simp add: flatEnv_def freshShot_def flatConfig_def calculatePhysics_def getInitialState_def
        checkCollision_def perpDist_def paraDist_def INCLINE_LENGTH_def Let_def toRad_0)
  have pre: "isPlaying (state freshShot) \<and> \<not> isFinished (state freshShot)
       \<and> t (state freshShot) + (1 / 60) * timeScale flatEnv \<le> 0.1
       \<and> \<not> (y (position (calculatePhysics (t (state freshShot) + (1 / 60) * timeScale flatEnv) flatEnv
                (startPosition (state freshShot)) (vel (getInitialState (config freshShot) flatEnv)))) < -30
           \<or> x (position (calculatePhysics (t (state freshShot) + (1 / 60) * timeScale flatEnv) flatEnv
                (startPosition (state freshShot)) (vel (getInitialState (config freshShot) flatEnv)))) > 250)"
    by (simp add: flatEnv_def freshShot_def flatConfig_def calculatePhysics_def getInitialState_def
        Let_def toRad_0)
  have late: "isPlaying (state flyingShot) \<and> \<not> isFinished (state flyingShot)
       \<and> 0.1 < t (state flyingShot) + (1 / 60) * timeScale flatEnv
       \<and> checkCollision (position (calculatePhysics (t (state flyingShot) + (1 / 60) * timeScale flatEnv)
            flatEnv (startPosition (state flyingShot))
            (vel (getInitialState (config flyingShot) flatEnv)))) (angleIncline flatEnv)"
    by (simp add: flatEnv_def flyingShot_def flatConfig_def calculatePhysics_def getInitialState_def
        checkCollision_def perpDist_def paraDist_def INCLINE_LENGTH_def Let_def toRad_0)
  have hit1: "checkCollision \<lparr> x = 5 / 2, y = - 981 / 20000 \<rparr> (angleIncline flatEnv)"
    by (simp add: ang checkCollision_def perpDist_def paraDist_def INCLINE_LENGTH_def toRad_0)
  note thm0 = origin_collides [of 0 flatConfig flatEnv freshShot flyingShot 0 ?o ?vl "[]" "1 / 5"]
  note thm1 = origin_collides [of 0 flatConfig flatEnv freshShot flyingShot "1 / 10" ?o ?vl "[?o]"
                "1 / 5"]
  note thm2 = origin_collides [of 0 flatConfig flatEnv freshShot flyingShot "1 / 10" ?o ?vl
                "[?o, \<lparr> x = 5 / 2, y = - 981 / 20000 \<rparr>]" "1 / 5"]
  have s0: "predictLoop flatEnv ?o ?vl 0 [] = predictLoop flatEnv ?o ?vl (1 / 10) [?o]"
    using thm0 by (simp add: pts predict_dt_def)
  have s1: "predictLoop flatEnv ?o ?vl (1 / 10) [?o]
        = predictLoop flatEnv ?o ?vl (1 / 5) [?o, \<lparr> x = 5 / 2, y = - 981 / 20000 \<rparr>]"
    using thm1 by (simp add: pts predict_dt_def)
  have s2: "predictLoop flatEnv ?o ?vl (1 / 5) [?o, \<lparr> x = 5 / 2, y = - 981 / 20000 \<rparr>]
        = [?o, \<lparr> x = 5 / 2, y = - 981 / 20000 \<rparr>, \<lparr> x = 5, y = - 981 / 5000 \<rparr>]"
    using thm2
    by (simp add: pts ang checkCollision_def perpDist_def paraDist_def INCLINE_LENGTH_def toRad_0
          predict_maxTime_def)
  have traj: "predictTrajectory flatConfig flatEnv
       = [?o, \<lparr> x = 5 / 2, y = - 981 / 20000 \<rparr>, \<lparr> x = 5, y = - 981 / 5000 \<rparr>]"
  proof -
    have "predictTrajectory flatConfig flatEnv = predictLoop flatEnv ?o ?vl 0 []"
      by (simp add: predictTrajectory_def Let_def ini)
    also note s0
    also note s1
    also note s2
    finally show ?thesis .
  qed
  have three: "3 \<le> length (predictTrajectory (flatConfig\<lparr> startPos := Bottom \<rparr>) flatEnv)"
    using thm0 by (simp add: ini pts predict_dt_def)
  from thm0 pre late tickhit hit1 traj three show ?thesis by blast
qed

end
